theory Spec2Isabelle
  imports Main
begin

section \<open>The framework objects the notebook works with\<close>

text \<open>
  The notebook \<^verbatim>\<open>P03.5-C01-plumbing.ipynb\<close> is a client of \<^verbatim>\<open>mxnet.gluon\<close>: it builds
  a multilayer perceptron twice (with \<^verbatim>\<open>nn.Sequential\<close> and as a subclass \<^verbatim>\<open>MLP\<close> of
  \<^verbatim>\<open>Block\<close>), initialises the parameters and passes data through. The library itself is
  not part of the repository. What the notebook and the specification say about it is
  modelled below, each such definition marked as modelled from the specification; the
  definitions \<open>net1\<close>, \<open>net2\<close>, \<open>MLP_init\<close>, the \<open>MLP\<close> equation of \<open>forward\<close> and
  \<open>Sequential_forward\<close> follow the code printed in the notebook. Where the two
  documents are silent (the arithmetic of a layer, the exceptions the framework raises,
  the initializer of a bias), the model follows the framework; the theorems on the
  repository's own code do not look into these choices.

  Element arithmetic is left open: the element type only has to offer \<open>0\<close>, \<open>+\<close>, \<open>*\<close>
  and \<open>\<le>\<close>, and no law of arithmetic is used, so the results do not depend on how the
  framework rounds.
\<close>

text \<open>
  Modelled from the spec: the framework's \<^verbatim>\<open>NDArray\<close>, its shape and its elements in
  row-major order.
\<close>

record 'a ndarray =
  shape :: "nat list"
  elems :: "'a list"

text \<open>
  Modelled from the spec: a framework initializer such as
  \<^verbatim>\<open>mx.init.Xavier(magnitude=2.24)\<close>, seen as the sample it draws: for a shape, the value
  it writes at each position.
\<close>

type_synonym 'a initializer = "nat list \<Rightarrow> nat \<Rightarrow> 'a"

text \<open>
  Modelled from the spec: the data an initializer writes into a parameter of the given
  shape, one value per position.
\<close>

definition sample :: "'a initializer \<Rightarrow> nat list \<Rightarrow> 'a list" where
  "sample f s = map (f s) [0..<prod_list s]"

text \<open>
  Modelled from the spec: a framework \<^verbatim>\<open>Parameter\<close>. A dimension \<open>0\<close> in \<open>pshape\<close> marks
  a dimension that is not yet known (the notebook prints \<^verbatim>\<open>(128,0)\<close>); \<open>init\<close> is the
  initializer the parameter was created with, if any, which takes precedence over the
  one passed to \<^verbatim>\<open>initialize\<close>; \<open>pdata\<close> is \<open>None\<close> until the parameter is materialised;
  \<open>deferred_init\<close> is the note of which initializer to run once the shape is known;
  \<open>init_calls\<close> counts the invocations of an initializer on this parameter.
\<close>

record 'a parameter =
  pshape :: "nat list"
  init :: "'a initializer option"
  pdata :: "'a list option"
  deferred_init :: "'a initializer option"
  init_calls :: nat

text \<open>Modelled from the spec: a parameter as a layer creates it, without data.\<close>

definition Parameter_new :: "nat list \<Rightarrow> 'a initializer option \<Rightarrow> 'a parameter" where
  "Parameter_new s i =
     \<lparr>pshape = s, init = i, pdata = None, deferred_init = None, init_calls = 0\<rparr>"

text \<open>Modelled from the spec: the framework's initializer \<^verbatim>\<open>zeros\<close>.\<close>

definition Zeros :: "'a::zero initializer" where
  "Zeros s i = 0"

text \<open>
  Modelled from the spec: materialising a parameter runs the noted initializer on the
  parameter's shape and clears the note; a parameter without a note is left as it is.
\<close>

definition finish_deferred_init :: "'a parameter \<Rightarrow> 'a parameter" where
  "finish_deferred_init p =
     (case deferred_init p of
        None \<Rightarrow> p
      | Some f \<Rightarrow>
          p\<lparr>pdata := Some (sample f (pshape p)),
            deferred_init := None,
            init_calls := Suc (init_calls p)\<rparr>)"

text \<open>
  Modelled from the spec: the activations a layer can be given; the notebook uses
  \<^verbatim>\<open>"relu"\<close> only.
\<close>

datatype activation = Relu

text \<open>
  Modelled from the spec: a \<^verbatim>\<open>Dense\<close> layer, "parametrized by weight matrix and bias
  term", with its number of output nodes and its optional activation.
\<close>

record 'a dense =
  units :: nat
  act :: "activation option"
  weight :: "'a parameter"
  bias :: "'a parameter"

text \<open>
  Modelled from the spec: \<^verbatim>\<open>Dense(units, activation=None, in_units=0)\<close>. The weight has
  shape \<^verbatim>\<open>(units, in_units)\<close>, so \<^verbatim>\<open>(128,0)\<close> when \<^verbatim>\<open>in_units\<close> is not given, and no
  initializer of its own; the bias has shape \<^verbatim>\<open>(units,)\<close>, which does not depend on the
  input, and the framework's default \<^verbatim>\<open>bias_initializer='zeros'\<close>.
\<close>

definition Dense_new :: "nat \<Rightarrow> activation option \<Rightarrow> nat \<Rightarrow> 'a::zero dense" where
  "Dense_new u a i =
     \<lparr>units = u, act = a,
      weight = Parameter_new [u, i] None, bias = Parameter_new [u] (Some Zeros)\<rparr>"

text \<open>
  Modelled from the spec: the input dimension of a layer is the second dimension of its
  weight, \<open>0\<close> while it is unknown.
\<close>

definition in_units :: "'a dense \<Rightarrow> nat" where
  "in_units d = (case pshape (weight d) of [u, i] \<Rightarrow> i | _ \<Rightarrow> 0)"

text \<open>
  Blocks: the framework's layers and containers together with the notebook's class
  \<^verbatim>\<open>MLP\<close>, whose three attributes \<^verbatim>\<open>dense0\<close>, \<^verbatim>\<open>dense1\<close>, \<^verbatim>\<open>dense2\<close> hold blocks. A
  \<^verbatim>\<open>Sequential\<close> "maintains a list of \<^verbatim>\<open>_children\<close>".
\<close>

datatype 'a block =
    Dense "'a dense"
  | Sequential "'a block list"
  | MLP "'a block" "'a block" "'a block"

text \<open>
  Modelled from the spec: the exceptions raised inside the framework, for an input
  without dimensions, for an input that does not fit the input dimension of a layer,
  and for a parameter that was never initialised.
\<close>

datatype error = BadInput | ShapeMismatch | NotInitialized

subsection \<open>Framework operations\<close>

text \<open>Modelled from the spec: \<^verbatim>\<open>nd.relu\<close>, elementwise \<open>max 0\<close>.\<close>

definition relu :: "'a::{zero,ord} ndarray \<Rightarrow> 'a ndarray" where
  "relu x = x\<lparr>elems := map (max 0) (elems x)\<rparr>"

text \<open>
  Modelled from the spec: row \<open>r\<close> of a row-major matrix with rows of width \<open>w\<close>, the
  product of two rows, and entry \<open>k\<close> of a vector (\<open>0\<close> beyond its end, which a
  materialised bias never reaches).
\<close>

definition row :: "nat \<Rightarrow> nat \<Rightarrow> 'a list \<Rightarrow> 'a list" where
  "row w r xs = take w (drop (r * w) xs)"

definition dot :: "'a::{zero,plus,times} list \<Rightarrow> 'a list \<Rightarrow> 'a" where
  "dot xs ys = foldr (+) (map2 (*) xs ys) 0"

definition at :: "'a::zero list \<Rightarrow> nat \<Rightarrow> 'a" where
  "at b k = (case drop k b of [] \<Rightarrow> 0 | v # _ \<Rightarrow> v)"

text \<open>
  Modelled from the spec: the fully-connected map of a layer on \<open>n\<close> rows of \<open>i\<close> inputs
  each, \<open>u\<close> output nodes per row: entry \<open>(r, k)\<close> is the product of row \<open>r\<close> of the input
  with row \<open>k\<close> of the weight matrix, plus entry \<open>k\<close> of the bias.
\<close>

definition FullyConnected ::
  "nat \<Rightarrow> nat \<Rightarrow> nat \<Rightarrow> 'a::{zero,plus,times} list \<Rightarrow> 'a list \<Rightarrow> 'a list \<Rightarrow> 'a list" where
  "FullyConnected n i u x w b =
     concat (map (\<lambda>r. map (\<lambda>k. dot (row i r x) (row i k w) + at b k) [0..<u]) [0..<n])"

text \<open>
  Modelled from the spec: shape inference. "The shape will be inferred on the fly once
  the network is provided with some input": a layer whose input dimension is unknown
  takes it from the input (\<open>i\<close> features per row) and its parameters are then
  materialised; a layer whose input dimension is known accepts only that many features.
\<close>

definition infer_shape :: "nat \<Rightarrow> 'a dense \<Rightarrow> error + 'a dense" where
  "infer_shape i d =
     (if in_units d = 0 then
        (if i = 0 then Inl ShapeMismatch
         else Inr (d\<lparr>weight := finish_deferred_init ((weight d)\<lparr>pshape := [units d, i]\<rparr>),
                    bias := finish_deferred_init (bias d)\<rparr>))
      else if in_units d = i then
        Inr (d\<lparr>weight := finish_deferred_init (weight d),
               bias := finish_deferred_init (bias d)\<rparr>)
      else Inl ShapeMismatch)"

text \<open>
  Modelled from the spec: the forward pass of a \<^verbatim>\<open>Dense\<close> layer. The input of shape
  \<open>n # rest\<close> is read as \<open>n\<close> rows of \<open>prod_list rest\<close> features; the result has shape
  \<open>[n, units]\<close>, and the activation, when the layer has one, is applied to it. The layer
  is returned with the state it has after the call, also when the call raises.
\<close>

definition Dense_forward ::
  "'a::{zero,plus,times,ord} dense \<Rightarrow> 'a ndarray \<Rightarrow> (error + 'a ndarray) \<times> 'a dense" where
  "Dense_forward d x =
     (case shape x of
        [] \<Rightarrow> (Inl BadInput, d)
      | n # rest \<Rightarrow>
          (case infer_shape (prod_list rest) d of
             Inl e \<Rightarrow> (Inl e, d)
           | Inr d' \<Rightarrow>
               (case pdata (weight d') of
                  None \<Rightarrow> (Inl NotInitialized, d)
                | Some w \<Rightarrow>
                    (case pdata (bias d') of
                       None \<Rightarrow> (Inl NotInitialized, d)
                     | Some b \<Rightarrow>
                         (let y = \<lparr>shape = [n, units d'],
                                   elems = FullyConnected n (prod_list rest) (units d')
                                             (elems x) w b\<rparr>
                          in (Inr (case act d' of None \<Rightarrow> y | Some Relu \<Rightarrow> relu y), d'))))))"

text \<open>
  Modelled from the spec: \<^verbatim>\<open>initialize\<close> on one parameter. A parameter that holds data
  already is left as it is. Otherwise the initializer is noted, the parameter's own
  one if it has one and the one passed to \<^verbatim>\<open>initialize\<close> if not; it runs at once when the
  shape of the parameter is complete, and is left waiting ("making a note of which
  initializer to associate with each parameter, even though its shape is not yet
  known") when the shape has an unknown dimension.
\<close>

definition Parameter_initialize :: "'a initializer \<Rightarrow> 'a parameter \<Rightarrow> 'a parameter" where
  "Parameter_initialize default_init p =
     (if pdata p \<noteq> None then p
      else
        (let p' = p\<lparr>deferred_init :=
                      Some (case init p of None \<Rightarrow> default_init | Some g \<Rightarrow> g)\<rparr>
         in if pshape p = [] \<or> prod_list (pshape p) = 0 then p'
            else finish_deferred_init p'))"

text \<open>
  Modelled from the spec: initialising the parameters of a layer, each on its own. The
  weight of a layer without \<^verbatim>\<open>in_units\<close> has the shape \<^verbatim>\<open>(units, 0)\<close> and waits for
  the first input; with \<^verbatim>\<open>in_units\<close> given it is materialised at once, as is the bias in
  both cases.
\<close>

definition Dense_initialize :: "'a initializer \<Rightarrow> 'a dense \<Rightarrow> 'a dense" where
  "Dense_initialize f d =
     d\<lparr>weight := Parameter_initialize f (weight d),
       bias := Parameter_initialize f (bias d)\<rparr>"

text \<open>
  Modelled from the spec: \<^verbatim>\<open>collect_params()\<close> gives the parameters of a block and of
  its children, in order. The collection holds the parameter objects themselves, so
  \<^verbatim>\<open>net.collect_params().initialize(init, ctx)\<close> and \<^verbatim>\<open>net.initialize(ctx)\<close> act on the
  network: \<open>initialize\<close> returns the network after the call.
\<close>

fun collect_params :: "'a block \<Rightarrow> 'a parameter list" where
  "collect_params (Dense d) = [weight d, bias d]"
| "collect_params (Sequential bs) = concat (map collect_params bs)"
| "collect_params (MLP b0 b1 b2) = collect_params b0 @ collect_params b1 @ collect_params b2"

fun initialize :: "'a initializer \<Rightarrow> 'a block \<Rightarrow> 'a block" where
  "initialize f (Dense d) = Dense (Dense_initialize f d)"
| "initialize f (Sequential bs) = Sequential (map (initialize f) bs)"
| "initialize f (MLP b0 b1 b2) = MLP (initialize f b0) (initialize f b1) (initialize f b2)"

text \<open>
  Modelled from the spec: \<^verbatim>\<open>Sequential.add\<close>, "every time we call \<^verbatim>\<open>net1.add(...)\<close> our
  net simply registers a new child", after the children it already has.
\<close>

definition add :: "'a block list \<Rightarrow> 'a block \<Rightarrow> 'a block list" where
  "add children b = children @ [b]"

subsection \<open>Calling a block\<close>

text \<open>
  Modelled from the spec: \<open>Block_call\<close>, the framework's \<^verbatim>\<open>Block.__call__\<close>, which "is
  defined so that \<^verbatim>\<open>net(data)\<close> behaves identically to \<^verbatim>\<open>net.forward(data)\<close>". A call
  returns the result or the exception raised, and the block as the call leaves it.

  \<open>forward\<close> selects the method of the block's class. For \<^verbatim>\<open>Sequential\<close> it is the loop the
  notebook prints,
  \<^verbatim>\<open>for block in self._children: x = block(x)\<close> and then \<^verbatim>\<open>return x\<close>,
  here \<open>Sequential_forward\<close>. For \<^verbatim>\<open>MLP\<close> it is the notebook's own method:
  \<^verbatim>\<open>x = nd.relu(self.dense0(x)); x = nd.relu(self.dense1(x)); return self.dense2(x)\<close>.
\<close>

fun Block_call ::
    "'a::{zero,plus,times,ord} block \<Rightarrow> 'a ndarray \<Rightarrow> (error + 'a ndarray) \<times> 'a block"
  and forward ::
    "'a block \<Rightarrow> 'a ndarray \<Rightarrow> (error + 'a ndarray) \<times> 'a block"
  and Sequential_forward ::
    "'a block list \<Rightarrow> 'a ndarray \<Rightarrow> (error + 'a ndarray) \<times> 'a block list"
where
  "Block_call b x = forward b x"
| "forward (Dense d) x = (case Dense_forward d x of (r, d') \<Rightarrow> (r, Dense d'))"
| "forward (Sequential bs) x =
     (case Sequential_forward bs x of (r, bs') \<Rightarrow> (r, Sequential bs'))"
| "forward (MLP dense0 dense1 dense2) x =
     (case Block_call dense0 x of
        (Inl e, dense0') \<Rightarrow> (Inl e, MLP dense0' dense1 dense2)
      | (Inr y0, dense0') \<Rightarrow>
          (let x = relu y0 in
           case Block_call dense1 x of
             (Inl e, dense1') \<Rightarrow> (Inl e, MLP dense0' dense1' dense2)
           | (Inr y1, dense1') \<Rightarrow>
               (let x = relu y1 in
                case Block_call dense2 x of
                  (r, dense2') \<Rightarrow> (r, MLP dense0' dense1' dense2'))))"
| "Sequential_forward [] x = (Inr x, [])"
| "Sequential_forward (block # rest) x =
     (case Block_call block x of
        (Inl e, block') \<Rightarrow> (Inl e, block' # rest)
      | (Inr x, block') \<Rightarrow>
          (case Sequential_forward rest x of (r, rest') \<Rightarrow> (r, block' # rest')))"

subsection \<open>The networks of the notebook\<close>

text \<open>
  \<^verbatim>\<open>net1 = gluon.nn.Sequential()\<close> followed by three calls of \<^verbatim>\<open>net1.add\<close>. The
  \<^verbatim>\<open>name_scope()\<close> only names the parameters and is not modelled.
\<close>

definition net1 :: "'a::zero block" where
  "net1 = Sequential
     (add (add (add [] (Dense (Dense_new 128 (Some Relu) 0)))
                       (Dense (Dense_new 64 (Some Relu) 0)))
                       (Dense (Dense_new 10 None 0)))"

text \<open>\<^verbatim>\<open>MLP.__init__\<close>: three layers without activation and without \<^verbatim>\<open>in_units\<close>.\<close>

definition MLP_init :: "'a::zero block" where
  "MLP_init = MLP (Dense (Dense_new 128 None 0))
                  (Dense (Dense_new 64 None 0))
                  (Dense (Dense_new 10 None 0))"

text \<open>The second \<^verbatim>\<open>net2\<close> of the notebook, with \<^verbatim>\<open>in_units\<close> given for every layer.\<close>

definition net2 :: "'a::zero block" where
  "net2 = Sequential
     (add (add (add [] (Dense (Dense_new 128 (Some Relu) 784)))
                       (Dense (Dense_new 64 (Some Relu) 128)))
                       (Dense (Dense_new 10 None 64)))"

subsection \<open>Notions used to state the properties\<close>

text \<open>The result of a call, without the state it leaves.\<close>

definition outcome ::
  "'a::{zero,plus,times,ord} block \<Rightarrow> 'a ndarray \<Rightarrow> error + 'a ndarray" where
  "outcome b x = fst (Block_call b x)"

text \<open>Python's sequencing of two calls: an exception of the first ends the evaluation.\<close>

definition and_then :: "error + 'b \<Rightarrow> ('b \<Rightarrow> error + 'c) \<Rightarrow> error + 'c" where
  "and_then r k = (case r of Inl e \<Rightarrow> Inl e | Inr v \<Rightarrow> k v)"

text \<open>
  The chain \<open>b\<^sub>n(\<dots>(b\<^sub>2(b\<^sub>1(x)))\<dots>)\<close> written as the nested expression it is, outermost
  call first: the argument list is \<open>[b\<^sub>n, \<dots>, b\<^sub>1]\<close>, the inner calls are evaluated first
  and the outermost block is applied to their result.
\<close>

fun apply_nested ::
  "'a::{zero,plus,times,ord} block list \<Rightarrow> 'a ndarray \<Rightarrow> (error + 'a ndarray) \<times> 'a block list"
where
  "apply_nested [] x = (Inr x, [])"
| "apply_nested (b # inner) x =
     (case apply_nested inner x of
        (Inl e, inner') \<Rightarrow> (Inl e, b # inner')
      | (Inr y, inner') \<Rightarrow> (case Block_call b y of (r, b') \<Rightarrow> (r, b' # inner')))"

text \<open>The structure of a network, without the state of its parameters.\<close>

datatype arch = ADense nat "activation option" | ASequential "arch list" | AMLP arch arch arch

fun architecture :: "'a block \<Rightarrow> arch" where
  "architecture (Dense d) = ADense (units d) (act d)"
| "architecture (Sequential bs) = ASequential (map architecture bs)"
| "architecture (MLP b0 b1 b2) = AMLP (architecture b0) (architecture b1) (architecture b2)"

text \<open>
  A layer is ready when its input dimension is known, both parameters hold data and no
  initializer is waiting to run; a network is ready when all its layers are.
\<close>

definition Dense_ready :: "'a dense \<Rightarrow> bool" where
  "Dense_ready d \<longleftrightarrow>
     in_units d \<noteq> 0 \<and> pdata (weight d) \<noteq> None \<and> pdata (bias d) \<noteq> None \<and>
     deferred_init (weight d) = None \<and> deferred_init (bias d) = None"

fun ready :: "'a block \<Rightarrow> bool" where
  "ready (Dense d) = Dense_ready d"
| "ready (Sequential bs) = list_all ready bs"
| "ready (MLP b0 b1 b2) = (ready b0 \<and> ready b1 \<and> ready b2)"

text \<open>
  A layer of \<open>u\<close> output nodes created without \<^verbatim>\<open>in_units\<close>, as it is after
  \<^verbatim>\<open>initialize\<close> with the initializer \<open>f\<close>: the weight waits, the bias holds its zeros.
\<close>

definition Dense_deferred :: "nat \<Rightarrow> activation option \<Rightarrow> 'a::zero initializer \<Rightarrow> 'a dense" where
  "Dense_deferred u a f =
     \<lparr>units = u, act = a,
      weight = \<lparr>pshape = [u, 0], init = None, pdata = None,
                deferred_init = Some f, init_calls = 0\<rparr>,
      bias = \<lparr>pshape = [u], init = Some Zeros, pdata = Some (sample Zeros [u]),
              deferred_init = None, init_calls = 1\<rparr>\<rparr>"

text \<open>
  A layer of \<open>u\<close> output nodes and \<open>i\<close> inputs as it is once both of its parameters are
  materialised, the weight by the initializer \<open>f\<close>, each by one run of its initializer.
\<close>

definition Dense_materialised ::
  "nat \<Rightarrow> activation option \<Rightarrow> nat \<Rightarrow> 'a::zero initializer \<Rightarrow> 'a dense" where
  "Dense_materialised u a i f =
     \<lparr>units = u, act = a,
      weight = \<lparr>pshape = [u, i], init = None, pdata = Some (sample f [u, i]),
                deferred_init = None, init_calls = 1\<rparr>,
      bias = \<lparr>pshape = [u], init = Some Zeros, pdata = Some (sample Zeros [u]),
              deferred_init = None, init_calls = 1\<rparr>\<rparr>"


text \<open>
  What a parameter holds: its shape, its data and the initializer waiting to run on it.
  The counter \<open>init_calls\<close> and the initializer the parameter was created with are left
  out.
\<close>

definition param_state ::
  "'a parameter \<Rightarrow> nat list \<times> 'a list option \<times> 'a initializer option" where
  "param_state p = (pshape p, pdata p, deferred_init p)"

text \<open>
  The notebook at the time of a call. Its global names (\<^verbatim>\<open>ctx\<close>, \<^verbatim>\<open>batch_size\<close>,
  \<^verbatim>\<open>mnist\<close>, \<^verbatim>\<open>train_data\<close>, \<^verbatim>\<open>test_data\<close>, \<^verbatim>\<open>net1\<close>, \<^verbatim>\<open>net2\<close>, \<^verbatim>\<open>data\<close>) are bound to
  objects; the networks among the objects are changed in place by a call.
\<close>

record 'a notebook =
  globals :: "string \<rightharpoonup> nat"
  objects :: "nat \<rightharpoonup> 'a block"

text \<open>
  Evaluating \<^verbatim>\<open>net(x)\<close> for the network object \<open>a\<close> of the notebook. The method receives
  the object and the argument. The body of \<^verbatim>\<open>MLP.forward\<close> (lines 111 to 114 of the
  notebook) assigns to its local \<^verbatim>\<open>x\<close> only and reads no global name but the module
  \<^verbatim>\<open>nd\<close>, so the call works on the object alone. There is no result when \<open>a\<close> is not a
  network.
\<close>

definition call_object ::
  "nat \<Rightarrow> 'a::{zero,plus,times,ord} ndarray \<Rightarrow> 'a notebook \<Rightarrow>
     ((error + 'a ndarray) \<times> 'a notebook) option" where
  "call_object a x nb =
     (case objects nb a of
        None \<Rightarrow> None
      | Some net \<Rightarrow>
          (case Block_call net x of
             (r, net') \<Rightarrow> Some (r, nb\<lparr>objects := (objects nb)(a \<mapsto> net')\<rparr>)))"

text \<open>
  Concrete inputs for the examples: an initializer that writes a constant, and an input
  of the shape of the notebook's \<^verbatim>\<open>data = train_data.next().data[0][0]\<close>, one MNIST image
  of shape \<open>1 \<times> 28 \<times> 28\<close>, here a blank one.
\<close>

definition Constant :: "'a \<Rightarrow> 'a initializer" where
  "Constant c s i = c"

definition example_input :: "int ndarray" where
  "example_input = \<lparr>shape = [1, 28, 28], elems = replicate 784 0\<rparr>"

text \<open>
  An \<^verbatim>\<open>MLP\<close> with its parameters materialised for the 784 features of an image, and the
  same network with another count of initializer runs on its first weight.
\<close>

definition example_MLP :: "int block" where
  "example_MLP =
     MLP (Dense (Dense_materialised 128 None 784 (Constant 1)))
         (Dense (Dense_materialised 64 None 128 (Constant 1)))
         (Dense (Dense_materialised 10 None 64 (Constant 1)))"

definition example_MLP_recounted :: "int block" where
  "example_MLP_recounted =
     MLP (Dense ((Dense_materialised 128 None 784 (Constant 1))
                   \<lparr>weight := (weight (Dense_materialised 128 None 784 (Constant 1)))
                                 \<lparr>init_calls := 2\<rparr>\<rparr>))
         (Dense (Dense_materialised 64 None 128 (Constant 1)))
         (Dense (Dense_materialised 10 None 64 (Constant 1)))"

text \<open>
  The notebook after its cell \<^verbatim>\<open>net2(data)\<close>: the eight global names, and the two network
  objects, \<^verbatim>\<open>net1\<close> as constructed and \<^verbatim>\<open>net2\<close>, the materialised \<^verbatim>\<open>MLP\<close>.
\<close>

definition example_notebook :: "int notebook" where
  "example_notebook =
     \<lparr>globals = [''ctx'' \<mapsto> 0, ''batch_size'' \<mapsto> 1, ''mnist'' \<mapsto> 2, ''train_data'' \<mapsto> 3,
                 ''test_data'' \<mapsto> 4, ''net1'' \<mapsto> 5, ''net2'' \<mapsto> 6, ''data'' \<mapsto> 7],
      objects = [5 \<mapsto> net1, 6 \<mapsto> example_MLP]\<rparr>"

section \<open>Properties of the framework operations\<close>

lemma relu_shape: "shape (relu x) = shape x"
  by (simp add: relu_def)

lemma infer_shape_units: "infer_shape i d = Inr d' \<Longrightarrow> units d' = units d \<and> act d' = act d"
  by (auto simp: infer_shape_def split: if_splits)

lemma Dense_forward_shape:
  assumes "Dense_forward d x = (Inr y, d')"
  shows "\<exists>n rest. shape x = n # rest \<and> shape y = [n, units d]"
  using assms
  by (auto simp: Dense_forward_def Let_def relu_shape dest!: infer_shape_units
      split: list.splits sum.splits option.splits activation.splits)

lemma finish_noop: "deferred_init p = None \<Longrightarrow> finish_deferred_init p = p"
  by (simp add: finish_deferred_init_def)

lemma infer_shape_act:
  "infer_shape i (d\<lparr>act := a\<rparr>) = map_sum id (\<lambda>d'. d'\<lparr>act := a\<rparr>) (infer_shape i d)"
  by (simp add: infer_shape_def in_units_def)

text \<open>
  A layer built with \<^verbatim>\<open>activation="relu"\<close> returns what \<^verbatim>\<open>nd.relu\<close> makes of the result
  of the same layer without activation, and goes through the same change of state.
\<close>

lemma Dense_forward_act:
  "Dense_forward (d\<lparr>act := Some Relu\<rparr>) x =
     (case Dense_forward (d\<lparr>act := None\<rparr>) x of
        (r, d') \<Rightarrow> (map_sum id relu r, d'\<lparr>act := Some Relu\<rparr>))"
proof (cases "shape x")
  case Nil
  then show ?thesis by (simp add: Dense_forward_def)
next
  case (Cons n rest)
  show ?thesis
  proof (cases "infer_shape (prod_list rest) d")
    case (Inl e)
    with Cons show ?thesis by (simp add: Dense_forward_def infer_shape_act)
  next
    case (Inr d')
    with Cons infer_shape_units[OF Inr] show ?thesis
      by (auto simp: Dense_forward_def infer_shape_act Let_def split: option.splits)
  qed
qed

lemma Dense_forward_act_None:
  assumes "act m = None"
  shows "Dense_forward (m\<lparr>act := Some Relu\<rparr>) x =
     (case Dense_forward m x of (r, d') \<Rightarrow> (map_sum id relu r, d'\<lparr>act := Some Relu\<rparr>))"
proof -
  from assms have "m\<lparr>act := None\<rparr> = m" by (cases m) simp
  then show ?thesis using Dense_forward_act[of m x] by simp
qed

lemma dense_act_eq:
  fixes a m :: "'a dense"
  assumes "units a = units m" "weight a = weight m" "bias a = bias m" "act a = c"
  shows "a = m\<lparr>act := c\<rparr>"
  using assms by (intro dense.equality) simp_all

subsection \<open>The structure of the networks\<close>

lemma arch_Dense:
  "architecture b = ADense u a \<Longrightarrow> \<exists>d. b = Dense d \<and> units d = u \<and> act d = a"
  by (cases b) auto

lemma arch_Sequential3:
  assumes "architecture s = ASequential [ADense u0 a0, ADense u1 a1, ADense u2 a2]"
  shows "\<exists>d0 d1 d2. s = Sequential [Dense d0, Dense d1, Dense d2] \<and>
           units d0 = u0 \<and> act d0 = a0 \<and> units d1 = u1 \<and> act d1 = a1 \<and>
           units d2 = u2 \<and> act d2 = a2"
proof (cases s)
  case (Sequential bs)
  with assms have "map architecture bs = [ADense u0 a0, ADense u1 a1, ADense u2 a2]"
    by simp
  then obtain b0 b1 b2 where bs: "bs = [b0, b1, b2]"
    and a: "architecture b0 = ADense u0 a0" "architecture b1 = ADense u1 a1"
           "architecture b2 = ADense u2 a2"
    by (auto simp: map_eq_Cons_conv)
  from a show ?thesis
    using Sequential bs by (auto dest!: arch_Dense)
qed (use assms in auto)

lemma arch_MLP3:
  assumes "architecture m = AMLP (ADense u0 a0) (ADense u1 a1) (ADense u2 a2)"
  shows "\<exists>d0 d1 d2. m = MLP (Dense d0) (Dense d1) (Dense d2) \<and>
           units d0 = u0 \<and> act d0 = a0 \<and> units d1 = u1 \<and> act d1 = a1 \<and>
           units d2 = u2 \<and> act d2 = a2"
proof (cases m)
  case (MLP b0 b1 b2)
  with assms have "architecture b0 = ADense u0 a0" "architecture b1 = ADense u1 a1"
           "architecture b2 = ADense u2 a2"
    by simp_all
  then show ?thesis
    using MLP by (auto dest!: arch_Dense)
qed (use assms in auto)

lemma arch_net1:
  "architecture net1 = ASequential [ADense 128 (Some Relu), ADense 64 (Some Relu), ADense 10 None]"
  by (simp add: net1_def add_def Dense_new_def)

lemma arch_MLP_init:
  "architecture MLP_init = AMLP (ADense 128 None) (ADense 64 None) (ADense 10 None)"
  by (simp add: MLP_init_def Dense_new_def)

lemma Dense_initialize_arch:
  "units (Dense_initialize f d) = units d \<and> act (Dense_initialize f d) = act d"
  by (simp add: Dense_initialize_def Let_def)

lemma initialize_arch: "architecture (initialize f b) = architecture b"
  by (induction b) (simp_all add: Dense_initialize_arch)

subsection \<open>The loop of Sequential\<close>

lemma foldl_add: "foldl add cs bs = cs @ bs"
  by (induction bs arbitrary: cs) (simp_all add: add_def)

lemma Sequential_forward_snoc:
  "Sequential_forward (bs @ [b]) x =
     (case Sequential_forward bs x of
        (Inl e, bs') \<Rightarrow> (Inl e, bs' @ [b])
      | (Inr y, bs') \<Rightarrow> (case forward b y of (r, b') \<Rightarrow> (r, bs' @ [b'])))"
  by (induction bs arbitrary: x) (auto split: prod.splits sum.splits)

lemma Sequential_forward_nested:
  "Sequential_forward bs x = (case apply_nested (rev bs) x of (r, bs') \<Rightarrow> (r, rev bs'))"
  by (induction bs arbitrary: x rule: rev_induct)
     (auto simp: Sequential_forward_snoc split: prod.splits sum.splits)

subsection \<open>Initialisation and the first forward pass\<close>

lemma Dense_initialize_deferred:
  "u \<noteq> 0 \<Longrightarrow> Dense_initialize f (Dense_new u a 0) = Dense_deferred u a f"
  by (simp add: Dense_initialize_def Parameter_initialize_def Dense_new_def Parameter_new_def
      finish_deferred_init_def Dense_deferred_def Let_def)

lemma Dense_initialize_known:
  "u \<noteq> 0 \<Longrightarrow> i \<noteq> 0 \<Longrightarrow> Dense_initialize f (Dense_new u a i) = Dense_materialised u a i f"
  by (simp add: Dense_initialize_def Parameter_initialize_def Dense_new_def Parameter_new_def
      finish_deferred_init_def Dense_materialised_def Let_def)

lemma activate_shape:
  "shape (case a of None \<Rightarrow> y | Some Relu \<Rightarrow> relu y) = shape y"
  by (simp add: relu_shape split: option.splits activation.splits)

lemma Dense_forward_first:
  assumes "shape x = n # rest" "prod_list rest \<noteq> 0"
  shows "\<exists>y. Dense_forward (Dense_deferred u a f) x =
               (Inr y, Dense_materialised u a (prod_list rest) f) \<and> shape y = [n, u]"
  using assms
  by (simp add: Dense_deferred_def Dense_forward_def infer_shape_def in_units_def
      finish_deferred_init_def Dense_materialised_def Let_def activate_shape)


lemma net2_initialize:
  "initialize f net2 =
     Sequential [Dense (Dense_materialised 128 (Some Relu) 784 f),
                 Dense (Dense_materialised 64 (Some Relu) 128 f),
                 Dense (Dense_materialised 10 None 64 f)]"
  by (simp add: net2_def add_def Dense_initialize_known)

lemma MLP_initialize:
  "initialize f MLP_init =
     MLP (Dense (Dense_deferred 128 None f))
         (Dense (Dense_deferred 64 None f))
         (Dense (Dense_deferred 10 None f))"
  by (simp add: MLP_init_def Dense_initialize_deferred)






text \<open>The first forward pass through an \<^verbatim>\<open>MLP\<close> after \<open>initialize\<close>.\<close>

lemma MLP_first_forward:
  assumes "shape x = n # rest" "prod_list rest \<noteq> 0"
  shows "\<exists>y. forward (initialize f MLP_init) x =
           (Inr y, MLP (Dense (Dense_materialised 128 None (prod_list rest) f))
                       (Dense (Dense_materialised 64 None 128 f))
                       (Dense (Dense_materialised 10 None 64 f))) \<and>
           shape y = [n, 10]"
proof -
  from Dense_forward_first[OF assms] obtain y0 where
    y0: "Dense_forward (Dense_deferred 128 None f) x =
           (Inr y0, Dense_materialised 128 None (prod_list rest) f)"
        "shape (relu y0) = [n, 128]"
    unfolding relu_shape by blast
  have "\<exists>y. Dense_forward (Dense_deferred 64 None f) (relu y0) =
               (Inr y, Dense_materialised 64 None (prod_list [128]) f) \<and> shape y = [n, 64]"
    by (rule Dense_forward_first[OF y0(2)]) simp
  then obtain y1 where
    y1: "Dense_forward (Dense_deferred 64 None f) (relu y0) =
           (Inr y1, Dense_materialised 64 None 128 f)"
        "shape (relu y1) = [n, 64]"
    unfolding relu_shape by auto
  have "\<exists>y. Dense_forward (Dense_deferred 10 None f) (relu y1) =
               (Inr y, Dense_materialised 10 None (prod_list [64]) f) \<and> shape y = [n, 10]"
    by (rule Dense_forward_first[OF y1(2)]) simp
  then obtain y2 where
    y2: "Dense_forward (Dense_deferred 10 None f) (relu y1) =
           (Inr y2, Dense_materialised 10 None 64 f)"
        "shape y2 = [n, 10]"
    by auto
  show ?thesis
    by (simp add: MLP_initialize y0 y1 y2)
qed

subsection \<open>What a forward pass leaves unchanged\<close>

lemma Dense_forward_ready: "Dense_ready d \<Longrightarrow> snd (Dense_forward d x) = d"
  by (auto simp: Dense_forward_def Dense_ready_def infer_shape_def finish_noop Let_def
      split: list.splits option.splits)

lemma ready_frame:
  "ready b \<Longrightarrow> snd (Block_call b x) = b"
  "ready b \<Longrightarrow> snd (forward b x) = b"
  "list_all ready bs \<Longrightarrow> snd (Sequential_forward bs x) = bs"
proof (induction b x and b x and bs x rule: Block_call_forward_Sequential_forward.induct)
  case (1 b x)
  then show ?case by simp
next
  case (2 d x)
  then show ?case
    using Dense_forward_ready[of d x] by (auto split: prod.splits)
next
  case (3 bs x)
  then show ?case by (auto split: prod.splits)
next
  case (4 dense0 dense1 dense2 x)
  then show ?case
    by (fastforce simp: Let_def split: prod.splits sum.splits)
next
  case (5 x)
  then show ?case by simp
next
  case (6 block rest x)
  then show ?case
    by (fastforce split: prod.splits sum.splits)
qed

lemma Dense_forward_arch:
  "units (snd (Dense_forward d x)) = units d \<and> act (snd (Dense_forward d x)) = act d"
  by (auto simp: Dense_forward_def Let_def dest: infer_shape_units
      split: list.splits sum.splits option.splits)

lemma forward_arch:
  "architecture (snd (Block_call b x)) = architecture b"
  "architecture (snd (forward b x)) = architecture b"
  "map architecture (snd (Sequential_forward bs x)) = map architecture bs"
proof (induction b x and b x and bs x rule: Block_call_forward_Sequential_forward.induct)
  case (1 b x)
  then show ?case by simp
next
  case (2 d x)
  then show ?case
    using Dense_forward_arch[of d x] by (auto split: prod.splits)
next
  case (3 bs x)
  then show ?case by (auto split: prod.splits)
next
  case (4 dense0 dense1 dense2 x)
  then show ?case
    by (fastforce simp: Let_def split: prod.splits sum.splits)
next
  case (5 x)
  then show ?case by simp
next
  case (6 block rest x)
  then show ?case
    by (fastforce split: prod.splits sum.splits)
qed

subsection \<open>What a forward pass depends on\<close>

text \<open>
  The forward pass of a layer reads the units, the activation and the parameter states
  of the layer, and nothing else of it.
\<close>

lemma finish_param_state:
  assumes "param_state p' = param_state p"
  shows "param_state (finish_deferred_init p') = param_state (finish_deferred_init p)"
  using assms
  by (auto simp: param_state_def finish_deferred_init_def split: option.splits)

lemma infer_shape_param_state:
  assumes "units d' = units d" "act d' = act d"
    and "param_state (weight d') = param_state (weight d)"
    and "param_state (bias d') = param_state (bias d)"
  shows "(\<exists>e. infer_shape i d' = Inl e \<and> infer_shape i d = Inl e) \<or>
         (\<exists>c' c. infer_shape i d' = Inr c' \<and> infer_shape i d = Inr c \<and>
                units c' = units c \<and> act c' = act c \<and>
                param_state (weight c') = param_state (weight c) \<and>
                param_state (bias c') = param_state (bias c))"
proof -
  from assms(3) have w: "pshape (weight d') = pshape (weight d)"
    by (simp add: param_state_def)
  then have i: "in_units d' = in_units d"
    by (simp add: in_units_def)
  have a: "param_state (finish_deferred_init ((weight d')\<lparr>pshape := [units d, i]\<rparr>)) =
           param_state (finish_deferred_init ((weight d)\<lparr>pshape := [units d, i]\<rparr>))"
    using assms(3) by (intro finish_param_state) (simp add: param_state_def)
  note b = finish_param_state[OF assms(3)] finish_param_state[OF assms(4)]
  show ?thesis
    using assms(1,2) a b by (simp add: infer_shape_def i)
qed

lemma Dense_forward_param_state:
  assumes "units d' = units d" "act d' = act d"
    and "param_state (weight d') = param_state (weight d)"
    and "param_state (bias d') = param_state (bias d)"
  shows "fst (Dense_forward d' x) = fst (Dense_forward d x) \<and>
         units (snd (Dense_forward d' x)) = units (snd (Dense_forward d x)) \<and>
         act (snd (Dense_forward d' x)) = act (snd (Dense_forward d x)) \<and>
         param_state (weight (snd (Dense_forward d' x))) =
           param_state (weight (snd (Dense_forward d x))) \<and>
         param_state (bias (snd (Dense_forward d' x))) =
           param_state (bias (snd (Dense_forward d x)))"
proof (cases "shape x")
  case Nil
  with assms show ?thesis by (simp add: Dense_forward_def)
next
  case (Cons n rest)
  from infer_shape_param_state[OF assms, of "prod_list rest"] show ?thesis
  proof (elim disjE exE conjE)
    fix e
    assume "infer_shape (prod_list rest) d' = Inl e" "infer_shape (prod_list rest) d = Inl e"
    with Cons assms show ?thesis by (simp add: Dense_forward_def)
  next
    fix c' c
    assume c: "infer_shape (prod_list rest) d' = Inr c'" "infer_shape (prod_list rest) d = Inr c"
      "units c' = units c" "act c' = act c"
      "param_state (weight c') = param_state (weight c)"
      "param_state (bias c') = param_state (bias c)"
    then have "pdata (weight c') = pdata (weight c)" "pdata (bias c') = pdata (bias c)"
      by (simp_all add: param_state_def)
    with Cons assms c show ?thesis
      by (simp add: Dense_forward_def Let_def split: option.splits)
  qed
qed

lemma forward_MLP_Dense:
  "forward (MLP (Dense d0) (Dense d1) (Dense d2)) x =
     (case fst (Dense_forward d0 x) of
        Inl e \<Rightarrow> (Inl e, MLP (Dense (snd (Dense_forward d0 x))) (Dense d1) (Dense d2))
      | Inr y0 \<Rightarrow>
          (case fst (Dense_forward d1 (relu y0)) of
             Inl e \<Rightarrow> (Inl e, MLP (Dense (snd (Dense_forward d0 x)))
                                  (Dense (snd (Dense_forward d1 (relu y0)))) (Dense d2))
           | Inr y1 \<Rightarrow>
               (fst (Dense_forward d2 (relu y1)),
                MLP (Dense (snd (Dense_forward d0 x)))
                    (Dense (snd (Dense_forward d1 (relu y0))))
                    (Dense (snd (Dense_forward d2 (relu y1)))))))"
  by (auto simp: Let_def split: prod.splits sum.splits)

text \<open>
  The same for an \<^verbatim>\<open>MLP\<close> of three \<^verbatim>\<open>Dense\<close> layers: two such networks whose parameters
  are in the same states give the same result and are left with parameters in the
  same states.
\<close>

lemma MLP_forward_param_state:
  fixes m m' :: "'a::{zero,plus,times,ord} block"
  assumes "architecture m = architecture (MLP_init :: 'a block)"
    and "architecture m' = architecture m"
    and "map param_state (collect_params m') = map param_state (collect_params m)"
  shows "fst (forward m' x) = fst (forward m x) \<and>
         map param_state (collect_params (snd (forward m' x))) =
           map param_state (collect_params (snd (forward m x)))"
proof -
  from assms(1) obtain d0 d1 d2 where m: "m = MLP (Dense d0) (Dense d1) (Dense d2)"
    and a: "units d0 = 128" "act d0 = None" "units d1 = 64" "act d1 = None"
           "units d2 = 10" "act d2 = None"
    unfolding arch_MLP_init by (blast dest: arch_MLP3)
  from assms(1,2) obtain e0 e1 e2 where m': "m' = MLP (Dense e0) (Dense e1) (Dense e2)"
    and b: "units e0 = 128" "act e0 = None" "units e1 = 64" "act e1 = None"
           "units e2 = 10" "act e2 = None"
    unfolding arch_MLP_init by (metis arch_MLP3)
  from assms(3) m m' have p:
    "param_state (weight e0) = param_state (weight d0)"
    "param_state (bias e0) = param_state (bias d0)"
    "param_state (weight e1) = param_state (weight d1)"
    "param_state (bias e1) = param_state (bias d1)"
    "param_state (weight e2) = param_state (weight d2)"
    "param_state (bias e2) = param_state (bias d2)"
    by simp_all
  have s0: "\<And>z. fst (Dense_forward e0 z) = fst (Dense_forward d0 z) \<and>
         param_state (weight (snd (Dense_forward e0 z))) =
           param_state (weight (snd (Dense_forward d0 z))) \<and>
         param_state (bias (snd (Dense_forward e0 z))) =
           param_state (bias (snd (Dense_forward d0 z)))"
    using Dense_forward_param_state[of e0 d0] a b p by simp
  have s1: "\<And>z. fst (Dense_forward e1 z) = fst (Dense_forward d1 z) \<and>
         param_state (weight (snd (Dense_forward e1 z))) =
           param_state (weight (snd (Dense_forward d1 z))) \<and>
         param_state (bias (snd (Dense_forward e1 z))) =
           param_state (bias (snd (Dense_forward d1 z)))"
    using Dense_forward_param_state[of e1 d1] a b p by simp
  have s2: "\<And>z. fst (Dense_forward e2 z) = fst (Dense_forward d2 z) \<and>
         param_state (weight (snd (Dense_forward e2 z))) =
           param_state (weight (snd (Dense_forward d2 z))) \<and>
         param_state (bias (snd (Dense_forward e2 z))) =
           param_state (bias (snd (Dense_forward d2 z)))"
    using Dense_forward_param_state[of e2 d2] a b p by simp
  show ?thesis
    unfolding m m' forward_MLP_Dense
    by (simp add: s0 s1 s2 p split: sum.splits)
qed

lemma call_object_frame:
  assumes "objects nb a = Some m"
  shows "\<exists>nb'. call_object a x nb = Some (fst (forward m x), nb') \<and>
           globals nb' = globals nb \<and>
           objects nb' a = Some (snd (forward m x)) \<and>
           (\<forall>b. b \<noteq> a \<longrightarrow> objects nb' b = objects nb b)"
  using assms by (simp add: call_object_def split: prod.splits)

section \<open>The claims\<close>

text \<open>
  C1. The two constructions are equivalent. Take any network \<open>s\<close> with the structure of
  \<open>net1\<close> (\<^verbatim>\<open>Sequential\<close> of \<^verbatim>\<open>Dense(128, activation="relu")\<close>, \<^verbatim>\<open>Dense(64, activation="relu")\<close>,
  \<^verbatim>\<open>Dense(10)\<close>) and any network \<open>m\<close> with the structure of an \<^verbatim>\<open>MLP\<close> instance, holding
  equal parameters. Then for every input \<open>x\<close> the two calls give the same result (the
  same array or the same exception), and they leave the two networks with equal
  parameters again.
\<close>

theorem net1_MLP_equivalent:
  fixes s m :: "'a::{zero,plus,times,ord} block"
  assumes "architecture s = architecture (net1 :: 'a block)"
    and "architecture m = architecture (MLP_init :: 'a block)"
    and "collect_params s = collect_params m"
  shows "fst (Block_call s x) = fst (Block_call m x) \<and>
         collect_params (snd (Block_call s x)) = collect_params (snd (Block_call m x))"
proof -
  from assms(1) obtain a0 a1 a2 where s: "s = Sequential [Dense a0, Dense a1, Dense a2]"
    and a: "units a0 = 128" "act a0 = Some Relu" "units a1 = 64" "act a1 = Some Relu"
           "units a2 = 10" "act a2 = None"
    unfolding arch_net1 by (blast dest: arch_Sequential3)
  from assms(2) obtain m0 m1 m2 where m: "m = MLP (Dense m0) (Dense m1) (Dense m2)"
    and b: "units m0 = 128" "act m0 = None" "units m1 = 64" "act m1 = None"
           "units m2 = 10" "act m2 = None"
    unfolding arch_MLP_init by (blast dest: arch_MLP3)
  from assms(3) s m have p: "weight a0 = weight m0" "bias a0 = bias m0"
    "weight a1 = weight m1" "bias a1 = bias m1" "weight a2 = weight m2" "bias a2 = bias m2"
    by simp_all
  have e0: "a0 = m0\<lparr>act := Some Relu\<rparr>" using a b p by (intro dense_act_eq) simp_all
  have e1: "a1 = m1\<lparr>act := Some Relu\<rparr>" using a b p by (intro dense_act_eq) simp_all
  have e2: "a2 = m2" using a b p by (intro dense.equality) simp_all
  show ?thesis
    unfolding s m e0 e1 e2
    by (auto simp: Dense_forward_act_None[OF b(2)] Dense_forward_act_None[OF b(4)] Let_def
        split: prod.splits sum.splits)
qed

text \<open>
  The theorem at two networks whose parameters hold the same data, materialised for the
  784 features of an MNIST image, and the example input.
\<close>

theorem net1_MLP_equivalent_witness:
  "fst (Block_call
          (Sequential [Dense (Dense_materialised 128 (Some Relu) 784 (Constant 1)),
                       Dense (Dense_materialised 64 (Some Relu) 128 (Constant 1)),
                       Dense (Dense_materialised 10 None 64 (Constant 1))])
          example_input) =
   fst (Block_call
          (MLP (Dense (Dense_materialised 128 None 784 (Constant 1)))
               (Dense (Dense_materialised 64 None 128 (Constant 1)))
               (Dense (Dense_materialised 10 None 64 (Constant 1))))
          example_input)"
proof -
  let ?s = "Sequential [Dense (Dense_materialised 128 (Some Relu) 784 (Constant 1)),
                        Dense (Dense_materialised 64 (Some Relu) 128 (Constant 1)),
                        Dense (Dense_materialised 10 None 64 (Constant 1))] :: int block"
  let ?m = "MLP (Dense (Dense_materialised 128 None 784 (Constant 1)))
                (Dense (Dense_materialised 64 None 128 (Constant 1)))
                (Dense (Dense_materialised 10 None 64 (Constant 1))) :: int block"
  have h1: "architecture ?s = architecture (net1 :: int block)"
    by (simp add: arch_net1 Dense_materialised_def)
  have h2: "architecture ?m = architecture (MLP_init :: int block)"
    by (simp add: arch_MLP_init Dense_materialised_def)
  have h3: "collect_params ?s = collect_params ?m"
    by (simp add: Dense_materialised_def)
  from net1_MLP_equivalent[OF h1 h2 h3, of example_input] show ?thesis
    by blast
qed

text \<open>
  C4. \<^verbatim>\<open>MLP.forward\<close> returns \<^verbatim>\<open>dense2(relu(dense1(relu(dense0(x)))))\<close> and does nothing
  else: its result is the chain of the three calls with \<^verbatim>\<open>nd.relu\<close> in between, an
  exception of a call ending the chain, and the network it leaves is the three
  children as those calls leave them, a child that is not reached being untouched.
\<close>

theorem MLP_forward_composition:
  "fst (forward (MLP dense0 dense1 dense2) x) =
     and_then (and_then (outcome dense0 x) (\<lambda>y. outcome dense1 (relu y)))
       (\<lambda>y. outcome dense2 (relu y)) \<and>
   snd (forward (MLP dense0 dense1 dense2) x) =
     MLP (snd (Block_call dense0 x))
         (case outcome dense0 x of
            Inl e \<Rightarrow> dense1
          | Inr y \<Rightarrow> snd (Block_call dense1 (relu y)))
         (case and_then (outcome dense0 x) (\<lambda>y. outcome dense1 (relu y)) of
            Inl e \<Rightarrow> dense2
          | Inr y \<Rightarrow> snd (Block_call dense2 (relu y)))"
  by (auto simp: outcome_def and_then_def Let_def split: prod.splits sum.splits)



text \<open>
  C7. A \<^verbatim>\<open>Sequential\<close> whose children \<open>b\<^sub>1, \<dots>, b\<^sub>n\<close> were registered in this order by
  successive calls of \<^verbatim>\<open>add\<close> computes \<open>b\<^sub>n(\<dots>(b\<^sub>2(b\<^sub>1(x)))\<dots>)\<close>: the loop of
  \<^verbatim>\<open>Sequential.forward\<close> gives the result of the nested expression, and leaves the
  children as the nested calls leave them.
\<close>

theorem Sequential_forward_chain:
  "forward (Sequential (foldl add [] bs)) x =
     (case apply_nested (rev bs) x of (r, bs') \<Rightarrow> (r, Sequential (rev bs')))"
  by (simp add: foldl_add Sequential_forward_nested split: prod.splits)

text \<open>
  C8. Calling a block as a function is calling its \<^verbatim>\<open>forward\<close> method: \<^verbatim>\<open>net(x)\<close> and
  \<^verbatim>\<open>net.forward(x)\<close> give the same result and leave the same network.
\<close>

theorem call_is_forward: "Block_call net x = forward net x"
  by simp




text \<open>
  C3. For the network \<open>net2\<close> built with \<^verbatim>\<open>in_units\<close> 784, 128 and 64, every parameter
  shape is fully determined at construction, and \<^verbatim>\<open>collect_params().initialize(init)\<close>
  materialises every parameter, running an initializer once on each, without any
  input having been seen: \<open>initialize\<close> takes no input. The weights receive what the
  initializer passed to \<^verbatim>\<open>initialize\<close> writes, the biases their zeros.
\<close>

theorem manual_shapes_initialize:
  "map pshape (collect_params net2) =
     [[128, 784], [128], [64, 128], [64], [10, 64], [10]] \<and>
   map pdata (collect_params net2) = [None, None, None, None, None, None] \<and>
   map pshape (collect_params (initialize f net2)) =
     [[128, 784], [128], [64, 128], [64], [10, 64], [10]] \<and>
   map pdata (collect_params (initialize f net2)) =
     [Some (sample f [128, 784]), Some (sample Zeros [128]),
      Some (sample f [64, 128]), Some (sample Zeros [64]),
      Some (sample f [10, 64]), Some (sample Zeros [10])] \<and>
   map deferred_init (collect_params (initialize f net2)) =
     [None, None, None, None, None, None] \<and>
   map init_calls (collect_params (initialize f net2)) = [1, 1, 1, 1, 1, 1]"
  by (simp add: net2_initialize Dense_materialised_def)
     (simp add: net2_def add_def Dense_new_def Parameter_new_def)

text \<open>
  C6, as amended. \<^verbatim>\<open>MLP.forward\<close> introduces no state of its own. For every network \<open>m\<close>
  with the structure of an \<^verbatim>\<open>MLP\<close> instance and every input \<open>x\<close>:
  \<^item> the call leaves the child layers in place (the structure of the network, the
    units and activations of the layers);
  \<^item> it leaves the parameters, and so the whole network, unchanged whenever every layer
    is ready (input dimension known, parameters materialised);
  \<^item> its result depends only on \<open>x\<close> and the layer parameters: two such networks whose
    parameters are in the same states (shape, data, waiting initializer) give the same
    result and are left with parameters in the same states, whatever else differs;
  \<^item> on the network as \<^verbatim>\<open>initialize\<close> leaves it, whose weights are still deferred, the
    first forward call on an input with a non-zero number of features succeeds and
    materialises the weights;
  \<^item> evaluated on a network object of the notebook, the call leaves every global
    binding and every other object unchanged.
\<close>

theorem MLP_forward_frame:
  fixes m m' :: "'a::{zero,plus,times,ord} block"
  assumes "architecture m = architecture (MLP_init :: 'a block)"
  shows
    "architecture (snd (forward m x)) = architecture m \<and>
     (ready m \<longrightarrow>
        snd (forward m x) = m \<and> collect_params (snd (forward m x)) = collect_params m) \<and>
     (architecture m' = architecture m \<and>
      map param_state (collect_params m') = map param_state (collect_params m) \<longrightarrow>
        fst (forward m' x) = fst (forward m x) \<and>
        map param_state (collect_params (snd (forward m' x))) =
          map param_state (collect_params (snd (forward m x)))) \<and>
     map pdata (collect_params (initialize f (MLP_init :: 'a block))) =
       [None, Some (sample Zeros [128]), None, Some (sample Zeros [64]),
        None, Some (sample Zeros [10])] \<and>
     (shape x = n # rest \<and> prod_list rest \<noteq> 0 \<longrightarrow>
        (\<exists>y. fst (forward (initialize f MLP_init) x) = Inr y) \<and>
        map pdata (collect_params (snd (forward (initialize f MLP_init) x))) =
          [Some (sample f [128, prod_list rest]), Some (sample Zeros [128]),
           Some (sample f [64, 128]), Some (sample Zeros [64]),
           Some (sample f [10, 64]), Some (sample Zeros [10])]) \<and>
     (objects nb a = Some m \<longrightarrow>
        (\<exists>nb'. call_object a x nb = Some (fst (forward m x), nb') \<and>
           globals nb' = globals nb \<and>
           objects nb' a = Some (snd (forward m x)) \<and>
           (\<forall>b. b \<noteq> a \<longrightarrow> objects nb' b = objects nb b)))"
proof -
  have children: "architecture (snd (forward m x)) = architecture m"
    by (rule forward_arch(2))
  have frame: "ready m \<longrightarrow>
        snd (forward m x) = m \<and> collect_params (snd (forward m x)) = collect_params m"
    using ready_frame(2)[of m x] by simp
  have depends: "architecture m' = architecture m \<and>
      map param_state (collect_params m') = map param_state (collect_params m) \<longrightarrow>
        fst (forward m' x) = fst (forward m x) \<and>
        map param_state (collect_params (snd (forward m' x))) =
          map param_state (collect_params (snd (forward m x)))"
    using MLP_forward_param_state[OF assms, of m' x] by blast
  have deferred: "map pdata (collect_params (initialize f (MLP_init :: 'a block))) =
       [None, Some (sample Zeros [128]), None, Some (sample Zeros [64]),
        None, Some (sample Zeros [10])]"
    by (simp add: MLP_initialize Dense_deferred_def)
  have first: "shape x = n # rest \<and> prod_list rest \<noteq> 0 \<longrightarrow>
        (\<exists>y. fst (forward (initialize f MLP_init) x) = Inr y) \<and>
        map pdata (collect_params (snd (forward (initialize f MLP_init) x))) =
          [Some (sample f [128, prod_list rest]), Some (sample Zeros [128]),
           Some (sample f [64, 128]), Some (sample Zeros [64]),
           Some (sample f [10, 64]), Some (sample Zeros [10])]"
  proof
    assume "shape x = n # rest \<and> prod_list rest \<noteq> 0"
    then have "shape x = n # rest" "prod_list rest \<noteq> 0" by simp_all
    from MLP_first_forward[OF this, of f] show
      "(\<exists>y. fst (forward (initialize f MLP_init) x) = Inr y) \<and>
        map pdata (collect_params (snd (forward (initialize f MLP_init) x))) =
          [Some (sample f [128, prod_list rest]), Some (sample Zeros [128]),
           Some (sample f [64, 128]), Some (sample Zeros [64]),
           Some (sample f [10, 64]), Some (sample Zeros [10])]"
      by (auto simp: Dense_materialised_def)
  qed
  have notebook: "objects nb a = Some m \<longrightarrow>
        (\<exists>nb'. call_object a x nb = Some (fst (forward m x), nb') \<and>
           globals nb' = globals nb \<and>
           objects nb' a = Some (snd (forward m x)) \<and>
           (\<forall>b. b \<noteq> a \<longrightarrow> objects nb' b = objects nb b))"
    using call_object_frame[of nb a m x] by blast
  from children frame depends deferred first notebook show ?thesis
    by (intro conjI)
qed

text \<open>
  The theorem at the materialised \<^verbatim>\<open>MLP\<close>, the same network with another count of
  initializer runs, the example input, the constant initializer and the example
  notebook, where the network is the object bound to \<^verbatim>\<open>net2\<close>.
\<close>

theorem MLP_forward_frame_witness:
  "ready example_MLP \<and>
   snd (forward example_MLP example_input) = example_MLP \<and>
   example_MLP_recounted \<noteq> example_MLP \<and>
   fst (forward example_MLP_recounted example_input) =
     fst (forward example_MLP example_input) \<and>
   (\<exists>y. fst (forward (initialize (Constant 1) MLP_init) example_input) = Inr y) \<and>
   (\<exists>nb'. call_object 6 example_input example_notebook =
             Some (fst (forward example_MLP example_input), nb') \<and>
      globals nb' = globals example_notebook \<and>
      objects nb' 5 = objects example_notebook 5)"
proof -
  have a: "architecture example_MLP = architecture (MLP_init :: int block)"
    by (simp add: arch_MLP_init example_MLP_def Dense_materialised_def)
  have r: "ready example_MLP"
    by (simp add: example_MLP_def Dense_ready_def Dense_materialised_def in_units_def)
  have d: "architecture example_MLP_recounted = architecture example_MLP \<and>
           map param_state (collect_params example_MLP_recounted) =
             map param_state (collect_params example_MLP)"
    by (simp add: example_MLP_def example_MLP_recounted_def Dense_materialised_def
        param_state_def)
  have ne: "example_MLP_recounted \<noteq> example_MLP"
    by (simp add: example_MLP_def example_MLP_recounted_def Dense_materialised_def)
  have x: "shape example_input = 1 # [28, 28] \<and> prod_list [28, 28] \<noteq> (0::nat)"
    by (simp add: example_input_def)
  have o: "objects example_notebook 6 = Some example_MLP"
    by (simp add: example_notebook_def)
  from MLP_forward_frame[OF a, of example_input example_MLP_recounted "Constant 1"
      1 "[28, 28]" example_notebook 6] r d x o
  obtain nb' where
    "snd (forward example_MLP example_input) = example_MLP"
    "fst (forward example_MLP_recounted example_input) =
       fst (forward example_MLP example_input)"
    "\<exists>y. fst (forward (initialize (Constant 1) MLP_init) example_input) = Inr y"
    "call_object 6 example_input example_notebook =
       Some (fst (forward example_MLP example_input), nb')"
    "globals nb' = globals example_notebook"
    "\<forall>b. b \<noteq> 6 \<longrightarrow> objects nb' b = objects example_notebook b"
    by blast
  with r ne show ?thesis
    by auto
qed

text \<open>
  C6 as stated fails on the notebook's own sequence \<^verbatim>\<open>net2 = MLP()\<close>,
  \<^verbatim>\<open>net2.initialize(ctx=ctx)\<close>, \<^verbatim>\<open>net2(data)\<close>: the first forward call materialises the
  weights, so the parameters after the call are not those before it.
\<close>

theorem MLP_forward_changes_parameters:
  "collect_params (snd (forward (initialize (Constant 1) MLP_init) example_input)) \<noteq>
   collect_params (initialize (Constant 1) MLP_init)"
proof -
  have "shape example_input = 1 # [28, 28]" "prod_list [28, 28] \<noteq> (0::nat)"
    by (simp_all add: example_input_def)
  from MLP_first_forward[OF this, of "Constant 1"]
  have "map pdata
          (collect_params (snd (forward (initialize (Constant 1) MLP_init) example_input))) =
        [Some (sample (Constant 1) [128, 784]), Some (sample Zeros [128]),
         Some (sample (Constant 1) [64, 128]), Some (sample Zeros [64]),
         Some (sample (Constant 1) [10, 64]), Some (sample Zeros [10])]"
    by (auto simp: Dense_materialised_def)
  moreover have
    "map pdata (collect_params (initialize (Constant 1) (MLP_init :: int block))) =
       [None, Some (sample Zeros [128]), None, Some (sample Zeros [64]),
        None, Some (sample Zeros [10])]"
    by (simp add: MLP_initialize Dense_deferred_def)
  ultimately show ?thesis
    by auto
qed

text \<open>
  C9. The output has as many columns as the last \<^verbatim>\<open>Dense\<close> layer has units: whenever a
  network with the structure of the \<^verbatim>\<open>MLP\<close> or of \<open>net1\<close> accepts an input, the input has
  some number \<open>n\<close> of rows and the result has shape \<open>n \<times> 10\<close>.
\<close>

theorem output_shape:
  fixes net :: "'a::{zero,plus,times,ord} block"
  assumes "architecture net = architecture (MLP_init :: 'a block) \<or>
           architecture net = architecture (net1 :: 'a block)"
    and "Block_call net x = (Inr y, net')"
  shows "\<exists>n rest. shape x = n # rest \<and> shape y = [n, 10]"
proof -
  from assms(1) obtain d0 d1 d2 where
    net: "net = MLP (Dense d0) (Dense d1) (Dense d2) \<or>
          net = Sequential [Dense d0, Dense d1, Dense d2]"
    and u: "units d2 = 10"
    unfolding arch_net1 arch_MLP_init by (blast dest: arch_Sequential3 arch_MLP3)
  from net have
    "\<exists>y0 y1 d0' d1' d2'.
       Dense_forward d0 x = (Inr y0, d0') \<and>
       (Dense_forward d1 (relu y0) = (Inr y1, d1') \<or> Dense_forward d1 y0 = (Inr y1, d1')) \<and>
       (Dense_forward d2 (relu y1) = (Inr y, d2') \<or> Dense_forward d2 y1 = (Inr y, d2'))"
  proof
    assume "net = MLP (Dense d0) (Dense d1) (Dense d2)"
    with assms(2) show ?thesis
      by (simp add: Let_def split: prod.splits sum.splits) blast
  next
    assume "net = Sequential [Dense d0, Dense d1, Dense d2]"
    with assms(2) show ?thesis
      by (simp add: Let_def split: prod.splits sum.splits) blast
  qed
  then obtain y0 y1 d0' d1' d2' where
    c: "Dense_forward d0 x = (Inr y0, d0')"
       "Dense_forward d1 (relu y0) = (Inr y1, d1') \<or> Dense_forward d1 y0 = (Inr y1, d1')"
       "Dense_forward d2 (relu y1) = (Inr y, d2') \<or> Dense_forward d2 y1 = (Inr y, d2')"
    by blast
  from Dense_forward_shape[OF c(1)] obtain n rest where
    x: "shape x = n # rest" and "shape y0 = [n, units d0]"
    by blast
  with c(2) have "\<exists>u. shape y1 = [n, u]"
    by (auto dest!: Dense_forward_shape simp: relu_shape)
  with c(3) u have "shape y = [n, 10]"
    by (auto dest!: Dense_forward_shape simp: relu_shape)
  with x show ?thesis by blast
qed

text \<open>
  The theorem at the initialised \<^verbatim>\<open>MLP\<close> and the example input, a single MNIST
  image: the call succeeds and returns a \<open>1 \<times> 10\<close> array, as the notebook prints.
\<close>

theorem output_shape_witness:
  "\<exists>y net'. Block_call (initialize (Constant 1) MLP_init) example_input = (Inr y, net') \<and>
     shape y = [1, 10]"
proof -
  have x: "shape example_input = 1 # [28, 28]" "prod_list [28, 28] \<noteq> (0::nat)"
    by (simp_all add: example_input_def)
  from MLP_first_forward[OF x, of "Constant 1"] obtain y net' where
    c: "Block_call (initialize (Constant 1) MLP_init) example_input = (Inr y, net')"
    by auto
  have a: "architecture (initialize (Constant 1) MLP_init :: int block) =
             architecture (MLP_init :: int block) \<or>
           architecture (initialize (Constant 1) MLP_init :: int block) =
             architecture (net1 :: int block)"
    by (simp add: initialize_arch)
  from output_shape[OF a c] x(1) have "shape y = [1, 10]"
    by simp
  with c show ?thesis by blast
qed

end
